theory Spec2Isabelle
  imports Complex_Main "HOL-Library.DAList"
begin

section \<open>The editor extension: \<open>vscode-extension/src/extension.ts\<close>\<close>

subsection \<open>The module-level language client\<close>

text \<open>
  The module keeps one variable, \<^verbatim>\<open>let client: LanguageClient;\<close>, which holds
  \<^verbatim>\<open>undefined\<close> until \<^verbatim>\<open>activate\<close> assigns the freshly constructed client. The
  model threads that variable, and a log of the operations invoked on a client, through
  \<open>activate\<close> and \<open>deactivate\<close>. A client object is a value of an arbitrary type \<open>'c\<close>;
  an object is always truthy, so \<^verbatim>\<open>!client\<close> holds exactly when the variable is unset.
\<close>

datatype 'c client_call = Start 'c | Stop 'c

record 'c module_state =
  client :: "'c option"
  calls :: "'c client_call list"

text \<open>The value \<^verbatim>\<open>client.stop()\<close> returns: the promise of stopping that client.\<close>

datatype 'c thenable = StopPromise 'c

text \<open>
  What the surroundings decide during one run of \<^verbatim>\<open>activate\<close>: whether one of the
  statements before the assignment throws (reading the configuration, creating the file
  watcher, the constructor itself), which client the constructor yields, and whether
  \<^verbatim>\<open>await client.start()\<close> or the registration after it throws.
\<close>

datatype 'c activation =
    ConstructionThrows
  | Constructed 'c bool bool

datatype activate_error = ActivationFailed

definition initial_state :: "'c module_state" where
  "initial_state = \<lparr>client = None, calls = []\<rparr>"

fun activate :: "'c activation \<Rightarrow> 'c module_state \<Rightarrow> (activate_error + unit) \<times> 'c module_state" where
  "activate ConstructionThrows st = (Inl ActivationFailed, st)"
| "activate (Constructed c start_ok register_ok) st =
     (let st' = st\<lparr>client := Some c, calls := calls st @ [Start c]\<rparr>
      in if start_ok \<and> register_ok then (Inr (), st') else (Inl ActivationFailed, st'))"

definition deactivate :: "'c module_state \<Rightarrow> 'c thenable option \<times> 'c module_state" where
  "deactivate st =
     (case client st of
        None \<Rightarrow> (None, st)
      | Some c \<Rightarrow> (Some (StopPromise c), st\<lparr>calls := calls st @ [Stop c]\<rparr>))"

subsection \<open>Rendering search results as a page\<close>

text \<open>
  \<^verbatim>\<open>formatSearchResults\<close> maps every result to a block of markup and joins the blocks
  with the empty separator between a fixed head and tail. A result has the fields of the
  interface \<^verbatim>\<open>SearchResult\<close> of \<^verbatim>\<open>types/progress.d.ts\<close>: two strings and a number.
  A number is a finite value, \<^verbatim>\<open>NaN\<close> or an infinity. \<open>toFixed\<close> follows
  \<^verbatim>\<open>Number.prototype.toFixed\<close>: a \<^verbatim>\<open>RangeError\<close> for more than 100 digits, the default
  string of a value that is not finite, and for a magnitude of at least \<open>10\<^sup>2\<^sup>1\<close> the
  default string conversion, which is taken as the parameter \<open>toString\<close>.
\<close>

datatype js_error = RangeError

datatype js_number = Finite real | NaN | PosInfinity | NegInfinity

record SearchResult =
  "text" :: string
  source :: string
  relevance :: js_number

definition digit :: "nat \<Rightarrow> char" where
  "digit d = ''0123456789'' ! d"

fun decimal :: "nat \<Rightarrow> string" where
  "decimal n = (if n < 10 then [digit n] else decimal (n div 10) @ [digit (n mod 10)])"

declare decimal.simps [simp del]

definition point_split :: "nat \<Rightarrow> string \<Rightarrow> string" where
  "point_split f m =
     (if f = 0 then m
      else
        (let k = length m;
             m = (if k \<le> f then replicate (f + 1 - k) (CHR ''0'') @ m else m);
             k = (if k \<le> f then f + 1 else k)
         in take (k - f) m @ ''.'' @ drop (k - f) m))"

definition toFixed :: "(real \<Rightarrow> string) \<Rightarrow> nat \<Rightarrow> js_number \<Rightarrow> js_error + string" where
  "toFixed toString f x =
     (if f > 100 then Inl RangeError
      else case x of
        NaN \<Rightarrow> Inr ''NaN''
      | PosInfinity \<Rightarrow> Inr ''Infinity''
      | NegInfinity \<Rightarrow> Inr ''-Infinity''
      | Finite r \<Rightarrow>
          (let s = (if r < 0 then ''-'' else '''');
               a = \<bar>r\<bar>
           in if a \<ge> 10 ^ 21 then Inr (s @ toString a)
              else Inr (s @ point_split f (decimal (nat \<lfloor>a * 10 ^ f + 1 / 2\<rfloor>)))))"

fun map_result :: "('a \<Rightarrow> js_error + 'b) \<Rightarrow> 'a list \<Rightarrow> js_error + 'b list" where
  "map_result f [] = Inr []"
| "map_result f (x # xs) =
     (case f x of
        Inl e \<Rightarrow> Inl e
      | Inr y \<Rightarrow> (case map_result f xs of Inl e \<Rightarrow> Inl e | Inr ys \<Rightarrow> Inr (y # ys)))"

fun join :: "string \<Rightarrow> string list \<Rightarrow> string" where
  "join sep [] = []"
| "join sep [x] = x"
| "join sep (x # y # ys) = x @ sep @ join sep (y # ys)"

definition block_open :: string where
  \<open>block_open =
     ''\<newline>'' @
     ''                <div class="result">\<newline>'' @
     ''                    <div class="content">''\<close>

definition block_source :: string where
  \<open>block_source =
     ''</div>\<newline>'' @
     ''                    <div class="source">Source: ''\<close>

definition block_relevance :: string where
  \<open>block_relevance =
     ''</div>\<newline>'' @
     ''                    <div class="relevance">Relevance: ''\<close>

definition block_close :: string where
  \<open>block_close =
     ''</div>\<newline>'' @
     ''                </div>\<newline>'' @
     ''            ''\<close>

definition page_head :: string where
  \<open>page_head =
     ''\<newline>'' @
     ''        <!DOCTYPE html>\<newline>'' @
     ''        <html>\<newline>'' @
     ''        <head>\<newline>'' @
     ''            <style>\<newline>'' @
     ''                body { font-family: var(--vscode-editor-font-family); }\<newline>'' @
     ''                .result { margin: 1em 0; padding: 1em; background: var(--vscode-editor-background); }\<newline>'' @
     ''                .source { color: var(--vscode-textLink-foreground); }\<newline>'' @
     ''                .relevance { color: var(--vscode-textPreformat-foreground); }\<newline>'' @
     ''            </style>\<newline>'' @
     ''        </head>\<newline>'' @
     ''        <body>\<newline>'' @
     ''            <h2>Search Results</h2>\<newline>'' @
     ''            ''\<close>

definition page_tail :: string where
  \<open>page_tail =
     ''\<newline>'' @
     ''        </body>\<newline>'' @
     ''        </html>\<newline>'' @
     ''    ''\<close>

definition result_block :: "(real \<Rightarrow> string) \<Rightarrow> SearchResult \<Rightarrow> js_error + string" where
  "result_block toString result =
     (case toFixed toString 2 (relevance result) of
        Inl e \<Rightarrow> Inl e
      | Inr shown \<Rightarrow>
          Inr (block_open @ text result @ block_source @ source result @
               block_relevance @ shown @ block_close))"

definition formatSearchResults :: "(real \<Rightarrow> string) \<Rightarrow> SearchResult list \<Rightarrow> js_error + string" where
  "formatSearchResults toString results =
     (case map_result (result_block toString) results of
        Inl e \<Rightarrow> Inl e
      | Inr blocks \<Rightarrow> Inr (page_head @ join [] blocks @ page_tail))"

definition fixed_notation :: "js_number \<Rightarrow> bool" where
  "fixed_notation x = (case x of Finite r \<Rightarrow> \<bar>r\<bar> < 10 ^ 21 | _ \<Rightarrow> False)"

definition two_decimals :: "js_number \<Rightarrow> string" where
  "two_decimals x =
     (case x of
        Finite r \<Rightarrow>
          (let n = nat \<lfloor>\<bar>r\<bar> * 100 + 1 / 2\<rfloor>
           in (if r < 0 then ''-'' else '''') @ decimal (n div 100) @ ''.'' @
              [digit (n div 10 mod 10), digit (n mod 10)])
      | _ \<Rightarrow> [])"

text \<open>
  What the rendering of a relevance is expected to be: \<open>two_decimal_places\<close> recognises
  an optional minus sign, digits, a point and two digits; \<open>rendered\<close> is the relevance as
  the page shows it, in two decimals within fixed notation and as the default string of
  the number elsewhere.
\<close>

definition is_digit :: "char \<Rightarrow> bool" where
  "is_digit c = (c \<in> set ''0123456789'')"

definition two_decimal_places :: "string \<Rightarrow> bool" where
  "two_decimal_places s =
     (case rev (if s \<noteq> [] \<and> hd s = CHR ''-'' then tl s else s) of
        b # a # p # whole \<Rightarrow>
          p = CHR ''.'' \<and> is_digit a \<and> is_digit b \<and> whole \<noteq> [] \<and> list_all is_digit whole
      | _ \<Rightarrow> False)"

definition rendered :: "(real \<Rightarrow> string) \<Rightarrow> js_number \<Rightarrow> string" where
  "rendered toString x =
     (case x of
        NaN \<Rightarrow> ''NaN''
      | PosInfinity \<Rightarrow> ''Infinity''
      | NegInfinity \<Rightarrow> ''-Infinity''
      | Finite r \<Rightarrow>
          if \<bar>r\<bar> < 10 ^ 21 then two_decimals x
          else (if r < 0 then ''-'' else '''') @ toString \<bar>r\<bar>)"

section \<open>The ingestion and retrieval pipeline\<close>

text \<open>
  The pipeline's components (the cache store, the change watcher, the context builder)
  are Python modules that the repository's files describe but do not contain: the design
  notes hold a flowchart of the cache strategy and signature stubs of the retrieval
  classes. Their definitions below follow the specification's sentences, and each says
  so.
\<close>

subsection \<open>Remote files, cache entries and the manifest\<close>

text \<open>
  Modelled from the spec: the data model of section 3. A remote file carries its id, name,
  checksum and modification time. The manifest maps a file id to its cache entry (local
  path, checksum, fetch time, expiry), as the persisted manifest file does; a mapping has
  one entry per id, so it is an association list with distinct keys. Times are counted in
  seconds; ids and checksums are of any type.
\<close>

record ('id, 'sum) RemoteFile =
  remote_id :: 'id
  name :: string
  remote_checksum :: 'sum
  remote_modified_time :: nat

record 'sum CacheEntry =
  local_path :: string
  checksum :: 'sum
  fetched_at :: nat
  ttl_expires_at :: nat

type_synonym ('id, 'sum) Manifest = "('id, 'sum CacheEntry) alist"

text \<open>Modelled from the spec: the manifest's file ids, in the order of its entries.\<close>

definition file_ids :: "('id, 'sum) Manifest \<Rightarrow> 'id list" where
  "file_ids manifest = map fst (DAList.impl_of manifest)"

subsection \<open>\<open>ChangeWatcher.diff\<close>\<close>

text \<open>
  Modelled from the spec: the classification rule of \<^verbatim>\<open>ChangeWatcher.diff\<close> (section 4.2);
  the change watcher itself is not among the repository's files. A remote file is new when
  the manifest has no entry for its id, unchanged when the entry's checksum equals the
  remote checksum, and updated when it differs.
\<close>

datatype change = New | Updated | Unchanged

definition classify :: "('id, 'sum) Manifest \<Rightarrow> ('id, 'sum) RemoteFile \<Rightarrow> change" where
  "classify manifest f =
     (case DAList.lookup manifest (remote_id f) of
        None \<Rightarrow> New
      | Some entry \<Rightarrow> if remote_checksum f = checksum entry then Unchanged else Updated)"

text \<open>
  Modelled from the spec: \<^verbatim>\<open>diff(remote-listing, manifest) -> {new, updated, deleted,
  unchanged}\<close>. The three classes of remote files hold their ids in the order of the
  listing; \<open>deleted\<close> holds the ids of the manifest that no remote file of the listing
  carries.
\<close>

record 'id Diff =
  new :: "'id list"
  updated :: "'id list"
  deleted :: "'id list"
  unchanged :: "'id list"

text \<open>
  Modelled from the spec: \<^verbatim>\<open>ChangeWatcher.diff\<close>, each remote file put into the class
  the rule gives it, each cached id without a remote file into \<open>deleted\<close>.
\<close>

definition diff :: "('id, 'sum) RemoteFile list \<Rightarrow> ('id, 'sum) Manifest \<Rightarrow> 'id Diff" where
  "diff remote_listing manifest =
     \<lparr>new = map remote_id (filter (\<lambda>f. classify manifest f = New) remote_listing),
      updated = map remote_id (filter (\<lambda>f. classify manifest f = Updated) remote_listing),
      deleted = filter (\<lambda>i. i \<notin> set (map remote_id remote_listing)) (file_ids manifest),
      unchanged = map remote_id (filter (\<lambda>f. classify manifest f = Unchanged) remote_listing)\<rparr>"


text \<open>
  A listing in which the files of one id agree on the checksum; a listing that names
  each id once is such a listing.
\<close>

definition one_checksum_per_id :: "('id, 'sum) RemoteFile list \<Rightarrow> bool" where
  "one_checksum_per_id remote_listing =
     list_all (\<lambda>f. list_all (\<lambda>g. remote_id f = remote_id g \<longrightarrow>
                                   remote_checksum f = remote_checksum g) remote_listing)
       remote_listing"



subsection \<open>\<open>CacheStore.is-fresh\<close>\<close>

text \<open>
  Modelled from the spec: \<^verbatim>\<open>is-fresh(file-id) -> bool\<close> of the cache store (section 4.1),
  which is not among the repository's files; the design note on the cache strategy asks the
  same two questions (is there a cache entry, is it within its validity period). The
  current time, which the operation reads from the clock, is the argument \<open>now\<close>.
\<close>

definition is_fresh :: "('id, 'sum) Manifest \<Rightarrow> nat \<Rightarrow> 'id \<Rightarrow> bool" where
  "is_fresh manifest now file_id =
     (case DAList.lookup manifest file_id of
        None \<Rightarrow> False
      | Some entry \<Rightarrow> now < ttl_expires_at entry)"

subsection \<open>\<open>ContextBuilder.build\<close>\<close>

text \<open>
  Modelled from the spec: the search result and the context of section 3. A citation names
  the chunk and its source, and carries the flag that marks a truncated chunk.
\<close>

record ('id, 'meta) search_result =
  chunk_id :: 'id
  chunk_text :: string
  score :: real
  source_metadata :: 'meta
  rank :: nat

record ('id, 'meta) citation =
  cited_chunk :: 'id
  cited_source :: 'meta
  truncated :: bool

record ('id, 'meta) Context =
  texts :: "string list"
  total_token_count :: nat
  source_citations :: "('id, 'meta) citation list"

text \<open>
  Modelled from the spec: what section 4.6 uses and leaves open, taken as parameters: the
  count of the tokens of a text, the truncation of a text to a budget, and the test for
  near-duplicates (whose threshold the specification names an open question).
\<close>

record tokenizer =
  count_tokens :: "string \<Rightarrow> nat"
  truncate_to :: "nat \<Rightarrow> string \<Rightarrow> string"
  near_duplicate :: "string \<Rightarrow> string \<Rightarrow> bool"

text \<open>
  Modelled from the spec: \<^verbatim>\<open>build(query, SearchResult[], max-tokens) -> Context\<close> of
  section 4.6; the design note holds only the signature of \<^verbatim>\<open>build_context\<close>. The walk
  goes through the results in rank order with a running token total: a near-duplicate of
  an included text is skipped, a chunk is included only if its whole text fits the
  remaining budget, and one that would overflow is skipped. When the highest-ranked chunk
  alone exceeds the budget it is truncated to the budget and its citation is flagged.
\<close>

definition empty_context :: "('id, 'meta) Context" where
  "empty_context = \<lparr>texts = [], total_token_count = 0, source_citations = []\<rparr>"

definition include_chunk ::
  "string \<Rightarrow> nat \<Rightarrow> bool \<Rightarrow> ('id, 'meta) search_result \<Rightarrow> ('id, 'meta) Context \<Rightarrow> ('id, 'meta) Context" where
  "include_chunk t n flag r ctx =
     \<lparr>texts = texts ctx @ [t],
      total_token_count = total_token_count ctx + n,
      source_citations = source_citations ctx @
        [\<lparr>cited_chunk = chunk_id r, cited_source = source_metadata r, truncated = flag\<rparr>]\<rparr>"

text \<open>
  Modelled from the spec: the walk of \<^verbatim>\<open>ContextBuilder.build\<close> over the ranked results,
  greedy by rank: skip a near-duplicate, include what fits, skip what would overflow.
\<close>

fun walk ::
  "tokenizer \<Rightarrow> nat \<Rightarrow> ('id, 'meta) Context \<Rightarrow> ('id, 'meta) search_result list \<Rightarrow> ('id, 'meta) Context" where
  "walk tk max_tokens ctx [] = ctx"
| "walk tk max_tokens ctx (r # rs) =
     (let n = count_tokens tk (chunk_text r)
      in if list_ex (\<lambda>t. near_duplicate tk t (chunk_text r)) (texts ctx)
         then walk tk max_tokens ctx rs
         else if total_token_count ctx + n \<le> max_tokens
         then walk tk max_tokens (include_chunk (chunk_text r) n False r ctx) rs
         else walk tk max_tokens ctx rs)"

text \<open>
  Modelled from the spec: \<^verbatim>\<open>ContextBuilder.build\<close>. The results are put in rank order;
  the highest-ranked chunk that alone exceeds the budget is truncated to it and flagged,
  otherwise the walk starts from the empty context.
\<close>

definition build ::
  "tokenizer \<Rightarrow> string \<Rightarrow> ('id, 'meta) search_result list \<Rightarrow> nat \<Rightarrow> ('id, 'meta) Context" where
  "build tk query results max_tokens =
     (case sort_key rank results of
        [] \<Rightarrow> empty_context
      | best # rest \<Rightarrow>
          if max_tokens < count_tokens tk (chunk_text best)
          then (let t = truncate_to tk max_tokens (chunk_text best)
                in include_chunk t (count_tokens tk t) True best empty_context)
          else walk tk max_tokens empty_context (best # rest))"

text \<open>The case of the fallback: the highest-ranked chunk alone exceeds the budget.\<close>

definition single_chunk_overflow :: "tokenizer \<Rightarrow> ('id, 'meta) search_result list \<Rightarrow> nat \<Rightarrow> bool" where
  "single_chunk_overflow tk results max_tokens =
     (case sort_key rank results of
        [] \<Rightarrow> False
      | best # rest \<Rightarrow> max_tokens < count_tokens tk (chunk_text best))"

subsection \<open>Example inputs\<close>




definition example_tokenizer :: tokenizer where
  "example_tokenizer = \<lparr>count_tokens = length, truncate_to = take, near_duplicate = (=)\<rparr>"

definition results0 :: "(string, string) search_result list" where
  "results0 =
     [\<lparr>chunk_id = ''b'', chunk_text = ''bbbb'', score = 1 / 2, source_metadata = ''b.pdf'', rank = 1\<rparr>,
      \<lparr>chunk_id = ''a'', chunk_text = ''aaa'', score = 3 / 4, source_metadata = ''a.pdf'', rank = 0\<rparr>,
      \<lparr>chunk_id = ''d'', chunk_text = ''aaa'', score = 1 / 4, source_metadata = ''d.pdf'', rank = 2\<rparr>,
      \<lparr>chunk_id = ''c'', chunk_text = ''cc'', score = 1 / 8, source_metadata = ''c.pdf'', rank = 3\<rparr>]"

definition manifest1 :: "(string, string) Manifest" where
  "manifest1 =
     DAList.update ''A''
       \<lparr>local_path = ''cache/pdf/A'', checksum = ''c1'', fetched_at = 1, ttl_expires_at = 5\<rparr>
       DAList.empty"

section \<open>Properties of the editor extension\<close>

subsection \<open>Properties of \<open>deactivate\<close>\<close>

lemma activate_construction_failed:
  "snd (activate ConstructionThrows initial_state) = initial_state"
  by simp

lemma activate_constructed_sets_client:
  "client (snd (activate (Constructed c s r) st)) = Some c"
  by (simp add: Let_def)

text \<open>
  Claim C9. When the module-level client is unset (\<open>activate\<close> never got as far as
  constructing it), \<open>deactivate\<close> returns \<^verbatim>\<open>undefined\<close> and invokes no client operation:
  the state, with its log of calls, is returned as it was. Otherwise it returns the
  promise produced by \<^verbatim>\<open>client.stop()\<close>, and that call to \<open>stop\<close> is the only
  operation it adds.
\<close>

theorem deactivate_unset_or_stop:
  "(client st = None \<longrightarrow> deactivate st = (None, st)) \<and>
   (\<forall>c. client st = Some c \<longrightarrow>
      fst (deactivate st) = Some (StopPromise c) \<and>
      client (snd (deactivate st)) = client st \<and>
      calls (snd (deactivate st)) = calls st @ [Stop c])"
  by (simp add: deactivate_def)

theorem deactivate_unset_or_stop_witness:
  "deactivate (snd (activate ConstructionThrows (initial_state :: nat module_state)))
     = (None, initial_state) \<and>
   fst (deactivate (snd (activate (Constructed (7::nat) True True) initial_state)))
     = Some (StopPromise 7) \<and>
   calls (snd (deactivate (snd (activate (Constructed (7::nat) True True) initial_state))))
     = [Start 7, Stop 7]"
  using deactivate_unset_or_stop [of "initial_state :: nat module_state"]
    deactivate_unset_or_stop
      [of "snd (activate (Constructed (7::nat) True True) initial_state)"]
  by (simp add: initial_state_def Let_def)

subsection \<open>Properties of \<open>formatSearchResults\<close>\<close>

lemma join_empty_sep: "join [] xs = concat xs"
  by (induction "[] :: string" xs rule: join.induct) simp_all

lemma map_result_total:
  assumes "\<And>x. \<exists>y. f x = Inr y"
  shows "\<exists>ys. map_result f xs = Inr ys \<and> length ys = length xs \<and>
           (\<forall>i<length xs. f (xs ! i) = Inr (ys ! i))"
proof (induction xs)
  case Nil
  show ?case by simp
next
  case (Cons x xs)
  from assms obtain y where y: "f x = Inr y" by blast
  from Cons obtain ys where ys: "map_result f xs = Inr ys" "length ys = length xs"
    "\<forall>i<length xs. f (xs ! i) = Inr (ys ! i)" by blast
  have "\<forall>i<length (x # xs). f ((x # xs) ! i) = Inr ((y # ys) ! i)"
    using y ys(3) by (simp add: nth_Cons split: nat.split)
  with y ys(1,2) show ?case by simp
qed

lemma decimal_nonempty: "decimal n \<noteq> []"
  by (subst decimal.simps) simp

lemma decimal_hundreds:
  assumes "100 \<le> n"
  shows "decimal n = decimal (n div 100) @ [digit (n div 10 mod 10), digit (n mod 10)]"
proof -
  have a: "decimal n = decimal (n div 10) @ [digit (n mod 10)]"
    using assms by (subst decimal.simps) simp
  have "\<not> n div 10 < 10" using assms by simp
  then have b: "decimal (n div 10) = decimal (n div 10 div 10) @ [digit (n div 10 mod 10)]"
    by (subst decimal.simps) simp
  have "n div 10 div 10 = n div 100" by (simp add: div_mult2_eq[symmetric])
  with a b show ?thesis by simp
qed

lemma point_split_two:
  "point_split 2 (decimal n) =
     decimal (n div 100) @ ''.'' @ [digit (n div 10 mod 10), digit (n mod 10)]"
proof -
  consider "n < 10" | "10 \<le> n" "n < 100" | "100 \<le> n" by linarith
  then show ?thesis
  proof cases
    case 1
    then have "decimal n = [digit n]" "decimal (n div 100) = [digit 0]"
      by (simp_all add: decimal.simps)
    with 1 show ?thesis by (simp add: point_split_def digit_def)
  next
    case 2
    then have "decimal n = [digit (n div 10), digit (n mod 10)]"
      "decimal (n div 100) = [digit 0]"
      by (simp_all add: decimal.simps[of n] decimal.simps[of "n div 10"] decimal.simps[of 0])
    with 2 show ?thesis by (simp add: point_split_def digit_def)
  next
    case 3
    then show ?thesis
      by (simp add: decimal_hundreds point_split_def decimal_nonempty)
  qed
qed

lemma toFixed_two_decimals:
  "fixed_notation x \<Longrightarrow> toFixed ts 2 x = Inr (two_decimals x)"
  by (cases x) (simp_all add: fixed_notation_def toFixed_def two_decimals_def point_split_two Let_def)

lemma toFixed_2_returns: "\<exists>shown. toFixed ts 2 x = Inr shown"
  by (cases x) (simp_all add: toFixed_def Let_def)


lemma decimal_digits: "set (decimal n) \<subseteq> set ''0123456789''"
proof (induction n rule: decimal.induct)
  case (1 n)
  have d: "digit k \<in> set ''0123456789''" if "k < 10" for k
  proof -
    from that have "k \<in> {0, 1, 2, 3, 4, 5, 6, 7, 8, 9}" by auto
    then show ?thesis by (auto simp: digit_def)
  qed
  show ?case
  proof (cases "n < 10")
    case True
    then show ?thesis using d[of n] by (subst decimal.simps) simp
  next
    case False
    then show ?thesis using 1 d[of "n mod 10"] by (subst decimal.simps) simp
  qed
qed

lemma digit_is_digit: "k < 10 \<Longrightarrow> is_digit (digit k)"
proof -
  assume "k < 10"
  then have "k \<in> {0, 1, 2, 3, 4, 5, 6, 7, 8, 9}" by auto
  then show ?thesis by (auto simp: digit_def is_digit_def)
qed

lemma decimal_all_digits: "list_all is_digit (decimal n)"
  unfolding list_all_iff is_digit_def using decimal_digits[of n] by blast

lemma two_decimals_shape:
  "two_decimal_places (two_decimals (Finite r))"
proof -
  define n where "n = nat \<lfloor>\<bar>r\<bar> * 100 + 1 / 2\<rfloor>"
  define w where "w = decimal (n div 100)"
  define a where "a = digit (n div 10 mod 10)"
  define b where "b = digit (n mod 10)"
  have w: "w \<noteq> []" "list_all is_digit w"
    by (simp_all add: w_def decimal_nonempty decimal_all_digits)
  have ab: "is_digit a" "is_digit b" by (simp_all add: a_def b_def digit_is_digit)
  have hdw: "hd w \<noteq> CHR ''-''"
  proof -
    from w have "is_digit (hd w)" by (cases w) simp_all
    then show ?thesis by (auto simp: is_digit_def)
  qed
  have td: "two_decimals (Finite r) = (if r < 0 then ''-'' else '''') @ w @ ''.'' @ [a, b]"
    by (simp add: two_decimals_def n_def w_def a_def b_def Let_def)
  show ?thesis
  proof (cases "r < 0")
    case True
    with td w ab show ?thesis by (simp add: two_decimal_places_def)
  next
    case False
    with td have "two_decimals (Finite r) = w @ ''.'' @ [a, b]" by simp
    moreover from w(1) hdw have "hd (w @ ''.'' @ [a, b]) \<noteq> CHR ''-''" by simp
    ultimately show ?thesis using w ab by (simp add: two_decimal_places_def)
  qed
qed

lemma toFixed_rendered: "toFixed ts 2 x = Inr (rendered ts x)"
proof (cases "fixed_notation x")
  case True
  then show ?thesis
    using toFixed_two_decimals[OF True, of ts]
    by (cases x) (simp_all add: rendered_def fixed_notation_def)
next
  case False
  then show ?thesis
    by (cases x) (simp_all add: rendered_def fixed_notation_def toFixed_def Let_def)
qed

text \<open>
  Claim C10, as amended. For every array of results, \<open>formatSearchResults\<close> returns a
  page (it never throws) that is the head, one block per element in the order of the
  array, and the tail: no element is dropped or repeated. The block of an element embeds
  its text, its source and its relevance as \<^verbatim>\<open>toFixed(2)\<close> renders it: in fixed notation
  (a finite relevance of magnitude below \<open>10\<^sup>2\<^sup>1\<close>) the sign, the integer part, a point
  and the two digits of the value rounded to hundredths; otherwise \<^verbatim>\<open>NaN\<close>,
  \<^verbatim>\<open>Infinity\<close>, \<^verbatim>\<open>-Infinity\<close> or the default string of the number.
\<close>

theorem formatSearchResults_one_block_per_result:
  "\<exists>blocks.
     formatSearchResults ts results = Inr (page_head @ concat blocks @ page_tail) \<and>
     length blocks = length results \<and>
     (\<forall>i<length results.
        blocks ! i =
          block_open @ text (results ! i) @ block_source @ source (results ! i) @
          block_relevance @ rendered ts (relevance (results ! i)) @ block_close \<and>
        toFixed ts 2 (relevance (results ! i)) = Inr (rendered ts (relevance (results ! i))) \<and>
        (fixed_notation (relevance (results ! i)) \<longrightarrow>
           rendered ts (relevance (results ! i)) = two_decimals (relevance (results ! i)) \<and>
           two_decimal_places (rendered ts (relevance (results ! i)))))"
proof -
  have block: "result_block ts r =
      Inr (block_open @ text r @ block_source @ source r @
           block_relevance @ rendered ts (relevance r) @ block_close)" for r
    by (simp add: result_block_def toFixed_rendered)
  then have total: "\<exists>b. result_block ts r = Inr b" for r by blast
  from map_result_total[of "result_block ts" results, OF total]
  obtain blocks where blocks: "map_result (result_block ts) results = Inr blocks"
    "length blocks = length results"
    "\<forall>i<length results. result_block ts (results ! i) = Inr (blocks ! i)"
    by blast
  have page: "formatSearchResults ts results = Inr (page_head @ concat blocks @ page_tail)"
    using blocks(1) by (simp add: formatSearchResults_def join_empty_sep)
  have each: "blocks ! i =
          block_open @ text (results ! i) @ block_source @ source (results ! i) @
          block_relevance @ rendered ts (relevance (results ! i)) @ block_close"
    if "i < length results" for i
    using blocks(3) that block[of "results ! i"] by simp
  have fixed: "rendered ts x = two_decimals x \<and> two_decimal_places (rendered ts x)"
    if "fixed_notation x" for x
    using that two_decimals_shape by (cases x) (simp_all add: rendered_def fixed_notation_def)
  from page blocks(2) each fixed toFixed_rendered show ?thesis by blast
qed

theorem formatSearchResults_one_block_per_result_witness:
  "formatSearchResults (\<lambda>_. ''1e+21'')
     [\<lparr>text = ''refund policy'', source = ''faq.pdf'', relevance = Finite (7 / 8)\<rparr>,
      \<lparr>text = ''returns'', source = ''terms.pdf'', relevance = Finite (1 / 2)\<rparr>]
   = Inr (page_head @
          (block_open @ ''refund policy'' @ block_source @ ''faq.pdf'' @
           block_relevance @ ''0.88'' @ block_close) @
          (block_open @ ''returns'' @ block_source @ ''terms.pdf'' @
           block_relevance @ ''0.50'' @ block_close) @
          page_tail) \<and>
   fixed_notation (Finite (7 / 8)) \<and> two_decimal_places ''0.88'' \<and>
   fixed_notation (Finite (1 / 2)) \<and> two_decimal_places ''0.50''"
proof -
  let ?ts = "\<lambda>_ :: real. ''1e+21''"
  let ?a = "\<lparr>text = ''refund policy'', source = ''faq.pdf'', relevance = Finite (7 / 8)\<rparr>"
  let ?b = "\<lparr>text = ''returns'', source = ''terms.pdf'', relevance = Finite (1 / 2)\<rparr>"
  have fa: "fixed_notation (Finite (7 / 8))" and fb: "fixed_notation (Finite (1 / 2))"
    by (simp_all add: fixed_notation_def)
  have da: "two_decimals (Finite (7 / 8)) = ''0.88''"
    by (simp add: two_decimals_def) (simp add: decimal.simps digit_def)
  have db: "two_decimals (Finite (1 / 2)) = ''0.50''"
    by (simp add: two_decimals_def) (simp add: decimal.simps digit_def)
  from formatSearchResults_one_block_per_result[of ?ts "[?a, ?b]"]
  obtain blocks where page:
      "formatSearchResults ?ts [?a, ?b] = Inr (page_head @ concat blocks @ page_tail)"
    and len: "length blocks = length [?a, ?b]"
    and each: "\<forall>i<length [?a, ?b].
        blocks ! i =
          block_open @ text ([?a, ?b] ! i) @ block_source @ source ([?a, ?b] ! i) @
          block_relevance @ rendered ?ts (relevance ([?a, ?b] ! i)) @ block_close \<and>
        toFixed ?ts 2 (relevance ([?a, ?b] ! i)) = Inr (rendered ?ts (relevance ([?a, ?b] ! i))) \<and>
        (fixed_notation (relevance ([?a, ?b] ! i)) \<longrightarrow>
           rendered ?ts (relevance ([?a, ?b] ! i)) = two_decimals (relevance ([?a, ?b] ! i)) \<and>
           two_decimal_places (rendered ?ts (relevance ([?a, ?b] ! i))))"
    by blast
  have i0: "0 < length [?a, ?b]" and i1: "1 < length [?a, ?b]" by simp_all
  note h0 = each[rule_format, OF i0, unfolded nth_Cons_0 SearchResult.simps]
  note h1 = each[rule_format, OF i1, unfolded One_nat_def nth_Cons_Suc nth_Cons_0 SearchResult.simps]
  from h0 fa
  have e0: "blocks ! 0 = block_open @ ''refund policy'' @ block_source @ ''faq.pdf'' @
           block_relevance @ rendered ?ts (Finite (7 / 8)) @ block_close"
    "rendered ?ts (Finite (7 / 8)) = two_decimals (Finite (7 / 8))"
    "two_decimal_places (rendered ?ts (Finite (7 / 8)))"
    by blast+
  from e0(2) da have ra: "rendered ?ts (Finite (7 / 8)) = ''0.88''" by simp
  from e0(3) have ta: "two_decimal_places ''0.88''" unfolding ra .
  from e0(1) have b0: "blocks ! 0 = block_open @ ''refund policy'' @ block_source @
           ''faq.pdf'' @ block_relevance @ ''0.88'' @ block_close" unfolding ra .
  from h1 fb
  have e1: "blocks ! Suc 0 = block_open @ ''returns'' @ block_source @ ''terms.pdf'' @
           block_relevance @ rendered ?ts (Finite (1 / 2)) @ block_close"
    "rendered ?ts (Finite (1 / 2)) = two_decimals (Finite (1 / 2))"
    "two_decimal_places (rendered ?ts (Finite (1 / 2)))"
    by blast+
  from e1(2) db have rb: "rendered ?ts (Finite (1 / 2)) = ''0.50''" by simp
  from e1(3) have tb: "two_decimal_places ''0.50''" unfolding rb .
  from e1(1) have b1: "blocks ! Suc 0 = block_open @ ''returns'' @ block_source @
           ''terms.pdf'' @ block_relevance @ ''0.50'' @ block_close" unfolding rb .
  from len obtain x y where "blocks = [x, y]"
    by (auto simp: length_Suc_conv)
  with b0 b1 page ta tb fa fb show ?thesis by simp
qed

text \<open>
  Claim C10 as worded, with two decimal places for every relevance, fails: a relevance of
  \<open>10\<^sup>2\<^sup>1\<close>, whose default string is \<^verbatim>\<open>1e+21\<close>, and \<^verbatim>\<open>NaN\<close> are shown without
  decimals.
\<close>

theorem formatSearchResults_two_decimals_counterexample:
  "formatSearchResults (\<lambda>_. ''1e+21'')
     [\<lparr>text = ''refund policy'', source = ''faq.pdf'', relevance = Finite (10 ^ 21)\<rparr>]
   = Inr (page_head @ block_open @ ''refund policy'' @ block_source @ ''faq.pdf'' @
          block_relevance @ ''1e+21'' @ block_close @ page_tail) \<and>
   \<not> two_decimal_places ''1e+21'' \<and>
   formatSearchResults (\<lambda>_. ''1e+21'')
     [\<lparr>text = ''refund policy'', source = ''faq.pdf'', relevance = NaN\<rparr>]
   = Inr (page_head @ block_open @ ''refund policy'' @ block_source @ ''faq.pdf'' @
          block_relevance @ ''NaN'' @ block_close @ page_tail) \<and>
   \<not> two_decimal_places ''NaN''"
  by (simp add: formatSearchResults_def result_block_def toFixed_def two_decimal_places_def
      is_digit_def)

section \<open>Properties of the pipeline\<close>

subsection \<open>\<open>ChangeWatcher.diff\<close> partitions the ids\<close>

lemma lookup_None_iff: "DAList.lookup m i = None \<longleftrightarrow> i \<notin> set (file_ids m)"
  by (simp add: file_ids_def DAList.lookup.rep_eq map_of_eq_None_iff)

lemma classify_New_iff: "classify m f = New \<longleftrightarrow> remote_id f \<notin> set (file_ids m)"
  by (auto simp: classify_def lookup_None_iff[symmetric] split: option.splits)






lemma distinct_ids_one_checksum:
  assumes "distinct (map remote_id fs)"
  shows "one_checksum_per_id fs"
proof -
  from assms have "inj_on remote_id (set fs)" by (simp add: distinct_map)
  then have "f = g" if "f \<in> set fs" "g \<in> set fs" "remote_id f = remote_id g" for f g
    using that by (auto dest: inj_onD)
  then show ?thesis by (auto simp: one_checksum_per_id_def list_all_iff)
qed









text \<open>
  The two scenarios the specification names: with an empty manifest every remote file is
  new, and an empty remote listing classifies every cached file as deleted.
\<close>

lemma diff_empty_manifest:
  "diff remote DAList.empty =
     \<lparr>new = map remote_id remote, updated = [], deleted = [], unchanged = []\<rparr>"
  by (simp add: diff_def classify_def file_ids_def DAList.empty.rep_eq)

lemma diff_empty_listing:
  "diff [] m = \<lparr>new = [], updated = [], deleted = file_ids m, unchanged = []\<rparr>"
  by (simp add: diff_def)






subsection \<open>\<open>CacheStore.is-fresh\<close>\<close>

text \<open>
  Claim C7. For every file id, manifest and time, \<open>is_fresh\<close> holds iff the manifest has
  an entry for the id and the time is strictly before the entry's expiry.
\<close>

theorem is_fresh_iff:
  "is_fresh manifest now file_id \<longleftrightarrow>
     (\<exists>entry. DAList.lookup manifest file_id = Some entry \<and> now < ttl_expires_at entry)"
  by (simp add: is_fresh_def split: option.split)

theorem is_fresh_iff_witness:
  "is_fresh manifest1 4 ''A'' \<and> \<not> is_fresh manifest1 5 ''A'' \<and> \<not> is_fresh manifest1 4 ''B''"
  using is_fresh_iff[of manifest1 4 "''A''"] is_fresh_iff[of manifest1 5 "''A''"]
    is_fresh_iff[of manifest1 4 "''B''"]
  by (simp add: manifest1_def DAList.lookup.rep_eq DAList.update.rep_eq DAList.empty.rep_eq)

subsection \<open>\<open>ContextBuilder.build\<close> stays within the budget\<close>

lemma walk_invariant:
  "total_token_count ctx \<le> m \<Longrightarrow> total_token_count ctx = sum_list (map (count_tokens tk) (texts ctx)) \<Longrightarrow>
   list_all (\<lambda>c. \<not> truncated c) (source_citations ctx) \<Longrightarrow>
   total_token_count (walk tk m ctx rs) \<le> m \<and>
   total_token_count (walk tk m ctx rs) = sum_list (map (count_tokens tk) (texts (walk tk m ctx rs))) \<and>
   list_all (\<lambda>c. \<not> truncated c) (source_citations (walk tk m ctx rs))"
proof (induction rs arbitrary: ctx)
  case Nil
  then show ?case by simp
next
  case (Cons r rs)
  show ?case
  proof (cases "list_ex (\<lambda>t. near_duplicate tk t (chunk_text r)) (texts ctx)")
    case True
    with Cons.IH[OF Cons.prems] show ?thesis by (simp add: Let_def)
  next
    case False
    show ?thesis
    proof (cases "total_token_count ctx + count_tokens tk (chunk_text r) \<le> m")
      case fits: True
      let ?c = "include_chunk (chunk_text r) (count_tokens tk (chunk_text r)) False r ctx"
      have "total_token_count ?c \<le> m"
        "total_token_count ?c = sum_list (map (count_tokens tk) (texts ?c))"
        "list_all (\<lambda>c. \<not> truncated c) (source_citations ?c)"
        using fits Cons.prems by (simp_all add: include_chunk_def)
      from Cons.IH[OF this] False fits show ?thesis by (simp add: Let_def)
    next
      case over: False
      with False Cons.IH[OF Cons.prems] show ?thesis by (simp add: Let_def)
    qed
  qed
qed

text \<open>
  Claim C2. For every query, list of results and budget, \<open>build\<close> returns a context
  whose token count is the sum over its texts. Unless the highest-ranked chunk alone
  exceeds the budget, that count is at most the budget and no citation is flagged. In
  that one case the context holds the single chunk truncated to the budget, with its
  citation flagged, and its count is at most the budget whenever truncation keeps to the
  budget it is given. \<open>build\<close> has no failing branch, so no budget error arises.
\<close>

theorem build_within_budget:
  "total_token_count (build tk query results max_tokens) =
     sum_list (map (count_tokens tk) (texts (build tk query results max_tokens))) \<and>
   (\<not> single_chunk_overflow tk results max_tokens \<longrightarrow>
      total_token_count (build tk query results max_tokens) \<le> max_tokens \<and>
      list_all (\<lambda>c. \<not> truncated c) (source_citations (build tk query results max_tokens))) \<and>
   (single_chunk_overflow tk results max_tokens \<longrightarrow>
      (\<exists>best rest. sort_key rank results = best # rest \<and>
         texts (build tk query results max_tokens) = [truncate_to tk max_tokens (chunk_text best)] \<and>
         source_citations (build tk query results max_tokens) =
           [\<lparr>cited_chunk = chunk_id best, cited_source = source_metadata best, truncated = True\<rparr>]) \<and>
      ((\<forall>n s. count_tokens tk (truncate_to tk n s) \<le> n) \<longrightarrow>
         total_token_count (build tk query results max_tokens) \<le> max_tokens))"
proof (cases "sort_key rank results")
  case Nil
  then show ?thesis
    by (simp add: build_def single_chunk_overflow_def empty_context_def)
next
  case (Cons best rest)
  show ?thesis
  proof (cases "max_tokens < count_tokens tk (chunk_text best)")
    case True
    with Cons show ?thesis
      by (simp add: build_def single_chunk_overflow_def empty_context_def include_chunk_def Let_def)
  next
    case False
    have "total_token_count (empty_context :: ('a, 'b) Context) \<le> max_tokens"
      "total_token_count (empty_context :: ('a, 'b) Context)
         = sum_list (map (count_tokens tk) (texts (empty_context :: ('a, 'b) Context)))"
      "list_all (\<lambda>c. \<not> truncated c) (source_citations (empty_context :: ('a, 'b) Context))"
      by (simp_all add: empty_context_def)
    from walk_invariant[OF this, of "best # rest"] Cons False show ?thesis
      by (simp add: build_def single_chunk_overflow_def)
  qed
qed

lemma sorted_results0:
  "sort_key rank results0 = [results0 ! 1, results0 ! 0, results0 ! 2, results0 ! 3]"
  by (simp add: results0_def)

lemma build0_fits:
  "build example_tokenizer ''refund policy'' results0 6 =
     \<lparr>texts = [''aaa'', ''cc''], total_token_count = 5,
      source_citations =
        [\<lparr>cited_chunk = ''a'', cited_source = ''a.pdf'', truncated = False\<rparr>,
         \<lparr>cited_chunk = ''c'', cited_source = ''c.pdf'', truncated = False\<rparr>]\<rparr>"
  by (simp add: build_def sorted_results0)
     (simp add: results0_def example_tokenizer_def empty_context_def include_chunk_def)

lemma build0_overflow:
  "build example_tokenizer ''refund policy'' results0 2 =
     \<lparr>texts = [''aa''], total_token_count = 2,
      source_citations = [\<lparr>cited_chunk = ''a'', cited_source = ''a.pdf'', truncated = True\<rparr>]\<rparr>"
  by (simp add: build_def sorted_results0)
     (simp add: results0_def example_tokenizer_def empty_context_def include_chunk_def)

theorem build_within_budget_witness:
  "\<not> single_chunk_overflow example_tokenizer results0 6 \<and>
   texts (build example_tokenizer ''refund policy'' results0 6) = [''aaa'', ''cc''] \<and>
   total_token_count (build example_tokenizer ''refund policy'' results0 6) \<le> 6 \<and>
   single_chunk_overflow example_tokenizer results0 2 \<and>
   texts (build example_tokenizer ''refund policy'' results0 2) = [''aa''] \<and>
   map truncated (source_citations (build example_tokenizer ''refund policy'' results0 2)) = [True] \<and>
   total_token_count (build example_tokenizer ''refund policy'' results0 2) \<le> 2"
proof -
  have a: "\<not> single_chunk_overflow example_tokenizer results0 6"
    by (simp add: single_chunk_overflow_def sorted_results0)
       (simp add: results0_def example_tokenizer_def)
  have b: "single_chunk_overflow example_tokenizer results0 2"
    by (simp add: single_chunk_overflow_def sorted_results0)
       (simp add: results0_def example_tokenizer_def)
  have c: "\<forall>n s. count_tokens example_tokenizer (truncate_to example_tokenizer n s) \<le> n"
    by (simp add: example_tokenizer_def)
  from build_within_budget[of example_tokenizer "''refund policy''" results0 6] a
  have "total_token_count (build example_tokenizer ''refund policy'' results0 6) \<le> 6"
    by blast
  moreover
  from build_within_budget[of example_tokenizer "''refund policy''" results0 2] b c
  have "total_token_count (build example_tokenizer ''refund policy'' results0 2) \<le> 2"
    by blast
  ultimately show ?thesis using a b by (simp add: build0_fits build0_overflow)
qed

end
